theory Spec2Isabelle
  imports Main
begin

section \<open>Strings: the two library calls the path handling relies on\<close>

text \<open>
  Python's \<^verbatim>\<open>str.split(sep)\<close> for a one-character separator: the pieces between
  the occurrences of the separator, in order. The result is never the empty list
  (\<^verbatim>\<open>"".split("/") == [""]\<close>), so the indexing \<^verbatim>\<open>[-1]\<close> and \<^verbatim>\<open>[0]\<close> that the
  source applies to it cannot raise IndexError (lemma \<open>str_split_not_Nil\<close>).
\<close>

fun str_split :: "char \<Rightarrow> string \<Rightarrow> string list" where
  "str_split c [] = [[]]"
| "str_split c (x # xs) =
     (if x = c then [] # str_split c xs
      else (x # hd (str_split c xs)) # tl (str_split c xs))"

text \<open>Python's \<^verbatim>\<open>s.endswith(suf)\<close>.\<close>

definition endswith :: "string \<Rightarrow> string \<Rightarrow> bool" where
  "endswith s suf =
     (length suf \<le> length s \<and> drop (length s - length suf) s = suf)"

section \<open>Data model\<close>

type_synonym path = string

text \<open>
  A pandas DataFrame as far as the program looks at it: named columns and ordered rows, each
  row with its index label and its fields. A frame that \<^verbatim>\<open>pd.read_csv\<close> builds with its
  defaults labels the rows 0, 1, 2 and so on.
\<close>

datatype dataframe = DataFrame (columns: "string list") (rows: "(string \<times> string list) list")

text \<open>A table of the database: its column names and its rows.\<close>

datatype sql_table = SqlTable (table_columns: "string list") (table_rows: "string list list")

text \<open>
  What \<^verbatim>\<open>DataFrame.to_sql\<close> writes. The call in the source leaves \<^verbatim>\<open>index\<close> at its default
  \<^verbatim>\<open>True\<close>, so the index is written as a leading column: it is named \<^verbatim>\<open>index\<close>, or
  \<^verbatim>\<open>level_0\<close> when a column of the frame is itself named \<^verbatim>\<open>index\<close>, and every row
  starts with its index label.
\<close>

definition index_label :: "dataframe \<Rightarrow> string" where
  "index_label df = (if ''index'' \<in> set (columns df) then ''level_0'' else ''index'')"

definition frame_table :: "dataframe \<Rightarrow> sql_table" where
  "frame_table df =
     SqlTable (index_label df # columns df) (map (\<lambda>(i, fields). i # fields) (rows df))"

text \<open>
  SQLite, the one engine the program offers, compares table names without regard to the case
  of ASCII letters: \<^verbatim>\<open>Orders\<close> and \<^verbatim>\<open>orders\<close> are one table. The tables are kept under
  the lower-case form of their name.
\<close>

definition ascii_lower :: "char \<Rightarrow> char" where
  "ascii_lower c =
     (case map_of (zip ''ABCDEFGHIJKLMNOPQRSTUVWXYZ'' ''abcdefghijklmnopqrstuvwxyz'') c of
        None \<Rightarrow> c
      | Some l \<Rightarrow> l)"

definition sqlite_key :: "string \<Rightarrow> string" where
  "sqlite_key name = map ascii_lower name"

text \<open>
  The exceptions that occur. \<open>FileNotFoundError\<close> and \<open>EmptyDataError\<close> are the two that
  \<^verbatim>\<open>add_dataframe\<close> catches, \<open>KeyError\<close> is the one \<^verbatim>\<open>remove_dataframe\<close> catches,
  \<open>ParserError\<close> stands for every other exception \<^verbatim>\<open>pd.read_csv\<close> can raise, and
  \<open>OperationalError\<close> is what the database engine raises.
\<close>

datatype exn = FileNotFoundError | EmptyDataError | KeyError | ParserError | OperationalError

text \<open>How a call ends: it returns, or an exception leaves it.\<close>

datatype outcome = Returned | Raised exn

text \<open>
  The requests that reach the database: \<^verbatim>\<open>DataFrame.to_sql(name, if_exists='replace')\<close>,
  \<^verbatim>\<open>engine.execute("SELECT * FROM name")\<close> and \<^verbatim>\<open>engine.execute("DROP TABLE name")\<close>.
\<close>

datatype store_call = ToSql string dataframe | SelectAll string | DropTable string

text \<open>The methods of \<^verbatim>\<open>PandasStateWatcher\<close> that the event handler calls.\<close>

datatype sync_call = AddDataframe path | RemoveDataframe path | UpdateDataframes path

text \<open>
  Records of the \<^verbatim>\<open>logging\<close> module: \<^verbatim>\<open>logging.debug\<close> of a message, \<^verbatim>\<open>logging.debug\<close>
  of the rows a SELECT fetched, and \<^verbatim>\<open>logging.error\<close>.
\<close>

datatype log_record = Debug string | DebugRows "string list list" | Error string

text \<open>
  What a call finds outside the program: the platform's \<^verbatim>\<open>os.path.sep\<close>, what
  \<^verbatim>\<open>pd.read_csv\<close> answers for each path at that moment, and which database requests fail
  for a reason of the database's own (I/O failure, SQL text the engine rejects, a frame that
  \<^verbatim>\<open>to_sql\<close> refuses).
\<close>

record world =
  os_path_sep :: char
  read_csv :: "path \<Rightarrow> exn + dataframe"
  store_raises :: "store_call \<Rightarrow> bool"

text \<open>
  The state: \<^verbatim>\<open>self.dataframes\<close>, the tables of the database behind \<^verbatim>\<open>self.engine\<close>, and
  the log. \<open>store_calls\<close> and \<open>sync_calls\<close> are observation traces: every request sent to the
  database and every call of a watcher method is appended there, and nothing reads them.
\<close>

record state =
  dataframes :: "path \<rightharpoonup> dataframe"
  tables :: "string \<rightharpoonup> sql_table"
  log :: "log_record list"
  store_calls :: "store_call list"
  sync_calls :: "sync_call list"

text \<open>
  \<^verbatim>\<open>PandasStateWatcher.__init__\<close>: an empty dict; the database is whatever the connection
  string points at, \<open>db\<close>.
\<close>

definition init :: "(string \<rightharpoonup> sql_table) \<Rightarrow> state" where
  "init db = \<lparr>dataframes = Map.empty, tables = db, log = [], store_calls = [], sync_calls = []\<rparr>"

section \<open>The database\<close>

text \<open>
  \<^verbatim>\<open>df.to_sql(table_name, con=self.engine, if_exists='replace')\<close>: the table of that name
  becomes what \<open>frame_table\<close> gives for the frame, whatever it held before.
\<close>

definition df_to_sql :: "world \<Rightarrow> state \<Rightarrow> string \<Rightarrow> dataframe \<Rightarrow> outcome \<times> state" where
  "df_to_sql w s name df =
     (let s1 = s\<lparr>store_calls := store_calls s @ [ToSql name df]\<rparr>
      in if store_raises w (ToSql name df) then (Raised OperationalError, s1)
         else (Returned, s1\<lparr>tables := (tables s1)(sqlite_key name \<mapsto> frame_table df)\<rparr>))"

text \<open>
  \<^verbatim>\<open>self.engine.execute(f"SELECT * FROM {table_name}").fetchall()\<close>: the rows of the table;
  a table that does not exist is an error.
\<close>

definition execute_select :: "world \<Rightarrow> state \<Rightarrow> string \<Rightarrow> (exn + string list list) \<times> state" where
  "execute_select w s name =
     (let s1 = s\<lparr>store_calls := store_calls s @ [SelectAll name]\<rparr>
      in if store_raises w (SelectAll name) then (Inl OperationalError, s1)
         else (case tables s1 (sqlite_key name) of
                 None \<Rightarrow> (Inl OperationalError, s1)
               | Some t \<Rightarrow> (Inr (table_rows t), s1)))"

text \<open>
  \<^verbatim>\<open>self.engine.execute(f"DROP TABLE {table_name}")\<close>: the table is gone; a table that does
  not exist is an error.
\<close>

definition execute_drop :: "world \<Rightarrow> state \<Rightarrow> string \<Rightarrow> outcome \<times> state" where
  "execute_drop w s name =
     (let s1 = s\<lparr>store_calls := store_calls s @ [DropTable name]\<rparr>
      in if store_raises w (DropTable name) then (Raised OperationalError, s1)
         else (case tables s1 (sqlite_key name) of
                 None \<Rightarrow> (Raised OperationalError, s1)
               | Some t \<Rightarrow> (Returned, s1\<lparr>tables := (tables s1)(sqlite_key name := None)\<rparr>)))"

section \<open>PandasStateWatcher\<close>

text \<open>
  \<^verbatim>\<open>table_name = src_path.split(os.path.sep)[-1].split('.')[0]\<close>
\<close>

definition table_name :: "char \<Rightarrow> path \<Rightarrow> string" where
  "table_name sep src_path = hd (str_split CHR ''.'' (last (str_split sep src_path)))"

text \<open>
  \<^verbatim>\<open>__to_sql(self, src_path, operation = "replace")\<close>. Reading \<^verbatim>\<open>self.dataframes[src_path]\<close>
  raises KeyError when the path is not a key.
\<close>

definition to_sql :: "world \<Rightarrow> state \<Rightarrow> path \<Rightarrow> string \<Rightarrow> outcome \<times> state" where
  "to_sql w s src_path operation =
     (let name = table_name (os_path_sep w) src_path
      in if operation = ''replace'' then
           (case dataframes s src_path of
              None \<Rightarrow> (Raised KeyError, s)
            | Some df \<Rightarrow>
                (case df_to_sql w s name df of
                   (Raised e, s1) \<Rightarrow> (Raised e, s1)
                 | (Returned, s1) \<Rightarrow>
                     (case execute_select w s1 name of
                        (Inl e, s2) \<Rightarrow> (Raised e, s2)
                      | (Inr fetched, s2) \<Rightarrow>
                          (Returned, s2\<lparr>log := log s2 @ [DebugRows fetched]\<rparr>))))
         else if operation = ''drop'' then execute_drop w s name
         else (Returned, s\<lparr>log := log s @ [Error ''Unrecognized'']\<rparr>))"

text \<open>
  \<^verbatim>\<open>add_dataframe(self, src_path)\<close>: the two caught exceptions end the call with nothing
  done; any other exception of \<^verbatim>\<open>pd.read_csv\<close> leaves the call.
\<close>

definition add_dataframe :: "world \<Rightarrow> state \<Rightarrow> path \<Rightarrow> outcome \<times> state" where
  "add_dataframe w s src_path =
     (let s0 = s\<lparr>sync_calls := sync_calls s @ [AddDataframe src_path]\<rparr>
      in case read_csv w src_path of
           Inl e \<Rightarrow>
             (if e = FileNotFoundError then (Returned, s0)
              else if e = EmptyDataError then (Returned, s0)
              else (Raised e, s0))
         | Inr df \<Rightarrow>
             to_sql w (s0\<lparr>dataframes := (dataframes s0)(src_path \<mapsto> df)\<rparr>) src_path ''replace'')"

text \<open>
  \<^verbatim>\<open>remove_dataframe(self, src_path)\<close>: \<^verbatim>\<open>del self.dataframes[src_path]\<close> raises KeyError
  for a path that is not a key, and the call returns.
\<close>

definition remove_dataframe :: "world \<Rightarrow> state \<Rightarrow> path \<Rightarrow> outcome \<times> state" where
  "remove_dataframe w s src_path =
     (let s0 = s\<lparr>sync_calls := sync_calls s @ [RemoveDataframe src_path]\<rparr>
      in case dataframes s0 src_path of
           None \<Rightarrow> (Returned, s0)
         | Some df \<Rightarrow>
             to_sql w (s0\<lparr>dataframes := (dataframes s0)(src_path := None)\<rparr>) src_path ''drop'')"

text \<open>\<^verbatim>\<open>update_dataframes(self, src_path)\<close>\<close>

definition update_dataframes :: "world \<Rightarrow> state \<Rightarrow> path \<Rightarrow> outcome \<times> state" where
  "update_dataframes w s src_path =
     add_dataframe w (s\<lparr>sync_calls := sync_calls s @ [UpdateDataframes src_path]\<rparr>) src_path"

section \<open>PandasFileSystemEventHander\<close>

datatype event_type = Created | Deleted | Modified | Moved

text \<open>
  A watchdog event. \<open>dest_path\<close> is read for moved events only.
\<close>

record event =
  event_type :: event_type
  is_directory :: bool
  src_path :: path
  dest_path :: path

definition on_created :: "world \<Rightarrow> state \<Rightarrow> event \<Rightarrow> outcome \<times> state" where
  "on_created w s e =
     add_dataframe w (s\<lparr>log := log s @ [Debug (''Created Event '' @ src_path e)]\<rparr>) (src_path e)"

definition on_deleted :: "world \<Rightarrow> state \<Rightarrow> event \<Rightarrow> outcome \<times> state" where
  "on_deleted w s e =
     remove_dataframe w (s\<lparr>log := log s @ [Debug (''Deleted Event '' @ src_path e)]\<rparr>) (src_path e)"

definition on_modified :: "world \<Rightarrow> state \<Rightarrow> event \<Rightarrow> outcome \<times> state" where
  "on_modified w s e =
     update_dataframes w (s\<lparr>log := log s @ [Debug (''Modified Event '' @ src_path e)]\<rparr>) (src_path e)"

text \<open>
  \<^verbatim>\<open>on_moved\<close>: two statements; an exception leaving the first one skips the second.
\<close>

definition on_moved :: "world \<Rightarrow> state \<Rightarrow> event \<Rightarrow> outcome \<times> state" where
  "on_moved w s e =
     (case add_dataframe w (s\<lparr>log := log s @ [Debug (''Moved Event '' @ src_path e)]\<rparr>) (dest_path e) of
        (Raised x, s1) \<Rightarrow> (Raised x, s1)
      | (Returned, s1) \<Rightarrow> remove_dataframe w s1 (src_path e))"

text \<open>
  Modelled from the spec: the base class's \<^verbatim>\<open>dispatch\<close> (\<^verbatim>\<open>super().dispatch(event)\<close>, of the
  watchdog library, not among the sources). It routes the event to the handler method of its
  kind, once: created, modified, deleted, moved.
\<close>

definition super_dispatch :: "world \<Rightarrow> state \<Rightarrow> event \<Rightarrow> outcome \<times> state" where
  "super_dispatch w s e =
     (case event_type e of
        Created \<Rightarrow> on_created w s e
      | Deleted \<Rightarrow> on_deleted w s e
      | Modified \<Rightarrow> on_modified w s e
      | Moved \<Rightarrow> on_moved w s e)"

text \<open>\<^verbatim>\<open>dispatch(self, event)\<close>: directories and paths that are not CSV files are ignored.\<close>

definition dispatch :: "world \<Rightarrow> state \<Rightarrow> event \<Rightarrow> outcome \<times> state" where
  "dispatch w s e =
     (if is_directory e \<or> \<not> endswith (src_path e) ''.csv'' then
        (Returned, s\<lparr>log := log s @ [Debug (''Ignoring '' @ src_path e)]\<rparr>)
      else super_dispatch w s e)"

text \<open>
  Modelled from the spec: the notification-delivery thread, which belongs to the watchdog
  library and is not among the sources. It delivers the notifications serially, one at a
  time, to \<^verbatim>\<open>dispatch\<close> (spec 5), each in the world of its moment. The program hands its
  handler to the library's observer as it is (\<^verbatim>\<open>observer.schedule\<close> in \<^verbatim>\<open>file2sql.py\<close>),
  with nothing around \<^verbatim>\<open>dispatch\<close> that catches an exception: one that leaves \<^verbatim>\<open>dispatch\<close>
  reaches the thread uncaught and ends it (the crash of spec 4.2 and 9), and the
  notifications behind it are not delivered.
\<close>

fun deliver :: "state \<Rightarrow> (world \<times> event) list \<Rightarrow> outcome \<times> state" where
  "deliver s [] = (Returned, s)"
| "deliver s ((w, e) # rest) =
     (case dispatch w s e of
        (Raised x, s1) \<Rightarrow> (Raised x, s1)
      | (Returned, s1) \<Rightarrow> deliver s1 rest)"

section \<open>Sequences of watcher calls\<close>

text \<open>
  A caller that invokes the two operations of the watcher one after the other, each in the
  world it finds at that moment. The state object outlives an exception, so the next call
  starts from the state the previous one left, however it ended.
\<close>

datatype sync_op = AddOrUpdate path | Remove path

fun apply_op :: "world \<Rightarrow> state \<Rightarrow> sync_op \<Rightarrow> outcome \<times> state" where
  "apply_op w s (AddOrUpdate p) = add_dataframe w s p"
| "apply_op w s (Remove p) = remove_dataframe w s p"

fun run_ops :: "state \<Rightarrow> (world \<times> sync_op) list \<Rightarrow> state" where
  "run_ops s [] = s"
| "run_ops s ((w, oper) # rest) = run_ops (snd (apply_op w s oper)) rest"

section \<open>The specification's notions\<close>

text \<open>
  The table identity in the specification's words: the final path segment after the last
  path separator, up to (not including) the first dot of that segment.
\<close>

definition final_segment :: "char \<Rightarrow> path \<Rightarrow> string" where
  "final_segment sep p = rev (takeWhile (\<lambda>c. c \<noteq> sep) (rev p))"

definition up_to_first_dot :: "string \<Rightarrow> string" where
  "up_to_first_dot seg = takeWhile (\<lambda>c. c \<noteq> CHR ''.'') seg"

definition tableIdentity :: "char \<Rightarrow> path \<Rightarrow> string" where
  "tableIdentity sep p = up_to_first_dot (final_segment sep p)"

text \<open>Whether a load produced a usable snapshot.\<close>

definition usable :: "exn + dataframe \<Rightarrow> bool" where
  "usable r = (case r of Inl e \<Rightarrow> False | Inr df \<Rightarrow> True)"

text \<open>
  Two readings of "tracked" over a history of watcher calls, most recent call first.
  \<open>last_load_usable\<close>: the most recent call on the path is a load attempt, and that attempt
  produced a usable snapshot. \<open>loaded_since_remove\<close>: some load of the path produced a usable
  snapshot and no remove of the path came after it; later loads that failed do not count.
\<close>

fun last_load_usable :: "(world \<times> sync_op) list \<Rightarrow> path \<Rightarrow> bool" where
  "last_load_usable [] p = False"
| "last_load_usable ((w, AddOrUpdate q) # h) p =
     (if q = p then usable (read_csv w q) else last_load_usable h p)"
| "last_load_usable ((w, Remove q) # h) p =
     (if q = p then False else last_load_usable h p)"

fun loaded_since_remove :: "(world \<times> sync_op) list \<Rightarrow> path \<Rightarrow> bool" where
  "loaded_since_remove [] p = False"
| "loaded_since_remove ((w, AddOrUpdate q) # h) p =
     (if q = p \<and> usable (read_csv w q) then True else loaded_since_remove h p)"
| "loaded_since_remove ((w, Remove q) # h) p =
     (if q = p then False else loaded_since_remove h p)"

text \<open>The trace line each handler method writes for its event.\<close>

definition event_line :: "event \<Rightarrow> string" where
  "event_line e =
     (case event_type e of
        Created \<Rightarrow> ''Created Event ''
      | Deleted \<Rightarrow> ''Deleted Event ''
      | Modified \<Rightarrow> ''Modified Event ''
      | Moved \<Rightarrow> ''Moved Event '') @ src_path e"

text \<open>
  The store raises during the replace for a path: the load gives a frame, and the store
  fails on the \<^verbatim>\<open>to_sql\<close> request or on the SELECT that reads the table back. The store
  raises during the drop for a path: the path is tracked, and the store fails on the
  DROP TABLE request or has no table of that name.
\<close>

definition replace_raises :: "world \<Rightarrow> path \<Rightarrow> bool" where
  "replace_raises w p =
     (case read_csv w p of
        Inl e \<Rightarrow> False
      | Inr df \<Rightarrow>
          store_raises w (ToSql (table_name (os_path_sep w) p) df)
          \<or> store_raises w (SelectAll (table_name (os_path_sep w) p)))"

definition drop_raises :: "world \<Rightarrow> state \<Rightarrow> path \<Rightarrow> bool" where
  "drop_raises w s p =
     (case dataframes s p of
        None \<Rightarrow> False
      | Some df \<Rightarrow>
          store_raises w (DropTable (table_name (os_path_sep w) p))
          \<or> tables s (sqlite_key (table_name (os_path_sep w) p)) = None)"

text \<open>
  The store raises while an event is handled: during the replace for a created or modified
  file, during the drop for a deleted file, and for a moved file during the replace at the
  destination or, when the add at the destination returned, during the drop at the source in
  the state that add left.
\<close>

definition store_fails_during :: "world \<Rightarrow> state \<Rightarrow> event \<Rightarrow> bool" where
  "store_fails_during w s e =
     (case event_type e of
        Created \<Rightarrow> replace_raises w (src_path e)
      | Modified \<Rightarrow> replace_raises w (src_path e)
      | Deleted \<Rightarrow> drop_raises w s (src_path e)
      | Moved \<Rightarrow>
          replace_raises w (dest_path e)
          \<or> fst (add_dataframe w s (dest_path e)) = Returned
            \<and> drop_raises w (snd (add_dataframe w s (dest_path e))) (src_path e))"

text \<open>
  The record that a completed replace for a path writes to the log: the rows read back from
  the table; nothing when the load gave no frame.
\<close>

definition rows_logged :: "world \<Rightarrow> path \<Rightarrow> log_record list" where
  "rows_logged w p =
     (case read_csv w p of
        Inl e \<Rightarrow> []
      | Inr df \<Rightarrow> [DebugRows (table_rows (frame_table df))])"

section \<open>Example inputs\<close>

text \<open>
  A POSIX world given by the files that can be read (any other path is not found) and the
  store requests that fail.
\<close>

definition posix_world :: "(path \<times> (exn + dataframe)) list \<Rightarrow> store_call list \<Rightarrow> world" where
  "posix_world files failing =
     \<lparr>os_path_sep = CHR ''/'',
      read_csv = (\<lambda>p. case map_of files p of None \<Rightarrow> Inl FileNotFoundError | Some r \<Rightarrow> r),
      store_raises = (\<lambda>c. c \<in> set failing)\<rparr>"

definition three_rows :: dataframe where
  "three_rows =
     DataFrame [''id'', ''amount'']
       [(''0'', [''1'', ''10'']), (''1'', [''2'', ''20'']), (''2'', [''3'', ''30''])]"

definition one_row :: dataframe where
  "one_row = DataFrame [''id'', ''amount''] [(''0'', [''7'', ''70''])]"

definition file_event :: "event_type \<Rightarrow> path \<Rightarrow> path \<Rightarrow> event" where
  "file_event k src dst = \<lparr>event_type = k, is_directory = False, src_path = src, dest_path = dst\<rparr>"

definition dir_event :: "event_type \<Rightarrow> path \<Rightarrow> path \<Rightarrow> event" where
  "dir_event k src dst = \<lparr>event_type = k, is_directory = True, src_path = src, dest_path = dst\<rparr>"

text \<open>The state after \<^verbatim>\<open>data/orders.csv\<close>, holding three rows, was added to a fresh watcher.\<close>

definition orders_tracked :: state where
  "orders_tracked =
     snd (add_dataframe (posix_world [(''data/orders.csv'', Inr three_rows)] []) (init Map.empty)
            ''data/orders.csv'')"

section \<open>Facts about the string functions\<close>

lemma str_split_not_Nil: "str_split c s \<noteq> []"
  by (induction s) auto

lemma hd_str_split: "hd (str_split c s) = takeWhile (\<lambda>x. x \<noteq> c) s"
  by (induction s) auto

lemma str_split_no_sep: "c \<notin> set s \<Longrightarrow> str_split c s = [s]"
  by (induction s) auto

lemma str_split_append: "str_split c (a @ c # b) = str_split c a @ str_split c b"
  by (induction a) (auto simp: str_split_not_Nil)

lemma takeWhile_no_sep: "c \<notin> set s \<Longrightarrow> takeWhile (\<lambda>x. x \<noteq> c) s = s"
  by (induction s) auto

lemma last_str_split: "last (str_split c s) = rev (takeWhile (\<lambda>x. x \<noteq> c) (rev s))"
proof (cases "c \<in> set s")
  case False
  then show ?thesis by (simp add: str_split_no_sep takeWhile_no_sep)
next
  case True
  then obtain a b where s: "s = a @ c # b" and b: "c \<notin> set b"
    by (auto dest: split_list_last)
  have "takeWhile (\<lambda>x. x \<noteq> c) (rev b @ c # rev a) = takeWhile (\<lambda>x. x \<noteq> c) (rev b)"
    by (rule takeWhile_tail) simp
  then have "rev (takeWhile (\<lambda>x. x \<noteq> c) (rev s)) = b"
    using b by (simp add: s takeWhile_no_sep)
  moreover have "last (str_split c s) = b"
    using b by (simp add: s str_split_append str_split_not_Nil str_split_no_sep)
  ultimately show ?thesis by simp
qed

text \<open>
  \<open>final_segment\<close> is the text after the last separator: the path is a prefix, the
  separator and the segment, and the segment holds no separator; a path without separator
  is its own final segment.
\<close>

lemma final_segment_after_last_sep:
  "sep \<in> set p \<Longrightarrow> \<exists>pre. p = pre @ sep # final_segment sep p \<and> sep \<notin> set (final_segment sep p)"
proof -
  assume "sep \<in> set p"
  then obtain a b where p: "p = a @ sep # b" and b: "sep \<notin> set b"
    by (auto dest: split_list_last)
  have "takeWhile (\<lambda>x. x \<noteq> sep) (rev b @ sep # rev a) = takeWhile (\<lambda>x. x \<noteq> sep) (rev b)"
    by (rule takeWhile_tail) simp
  then have "final_segment sep p = b"
    using b by (simp add: final_segment_def p takeWhile_no_sep)
  with p b show ?thesis by auto
qed

lemma final_segment_no_sep: "sep \<notin> set p \<Longrightarrow> final_segment sep p = p"
  by (simp add: final_segment_def takeWhile_no_sep)

lemma endswith_iff: "endswith s suf \<longleftrightarrow> (\<exists>pre. s = pre @ suf)"
  unfolding endswith_def
  by (metis append_eq_conv_conj append_take_drop_id diff_add_inverse2 length_append le_add2 length_drop)

lemma last_split_suffix: "\<exists>pre. s = pre @ last (str_split c s)"
  unfolding last_str_split
  by (metis rev_append rev_rev_ident takeWhile_dropWhile_id)

lemma table_name_takeWhile:
  "table_name sep p = takeWhile (\<lambda>c. c \<noteq> CHR ''.'') (rev (takeWhile (\<lambda>c. c \<noteq> sep) (rev p)))"
  by (simp add: table_name_def hd_str_split last_str_split)

section \<open>What each operation does to the state\<close>

text \<open>The table names of the examples are in lower case already.\<close>

lemma sqlite_key_examples:
  "sqlite_key [] = []"
  "sqlite_key ''a'' = ''a''"
  "sqlite_key ''b'' = ''b''"
  "sqlite_key ''c'' = ''c''"
  "sqlite_key ''orders'' = ''orders''"
  by (simp_all add: sqlite_key_def ascii_lower_def)

lemma sqlite_key_folds_case: "sqlite_key ''Orders'' = sqlite_key ''orders''"
  by (simp add: sqlite_key_def ascii_lower_def)

text \<open>The unfolding rules used to run the program on the example inputs.\<close>

lemmas run_defs = add_dataframe_def remove_dataframe_def update_dataframes_def to_sql_def
  df_to_sql_def execute_select_def execute_drop_def table_name_takeWhile Let_def init_def
  posix_world_def dispatch_def super_dispatch_def on_created_def on_deleted_def
  on_modified_def on_moved_def endswith_def file_event_def dir_event_def sqlite_key_examples
  frame_table_def index_label_def

lemma orders_tracked_eq:
  "orders_tracked =
     \<lparr>dataframes = [''data/orders.csv'' \<mapsto> three_rows],
      tables = [''orders'' \<mapsto> frame_table three_rows],
      log = [DebugRows (table_rows (frame_table three_rows))],
      store_calls = [ToSql ''orders'' three_rows, SelectAll ''orders''],
      sync_calls = [AddDataframe ''data/orders.csv'']\<rparr>"
  by (simp add: orders_tracked_def add_dataframe_def to_sql_def df_to_sql_def execute_select_def
      table_name_takeWhile Let_def init_def posix_world_def sqlite_key_examples)

lemma add_dataframe_not_loaded:
  "read_csv w p = Inl e \<Longrightarrow>
   add_dataframe w s p =
     (if e = FileNotFoundError \<or> e = EmptyDataError then Returned else Raised e,
      s\<lparr>sync_calls := sync_calls s @ [AddDataframe p]\<rparr>)"
  by (simp add: add_dataframe_def)

lemma add_dataframe_loaded:
  "read_csv w p = Inr df \<Longrightarrow>
   add_dataframe w s p =
     (let name = table_name (os_path_sep w) p;
          s1 = s\<lparr>dataframes := (dataframes s)(p \<mapsto> df),
                 sync_calls := sync_calls s @ [AddDataframe p],
                 store_calls := store_calls s @ [ToSql name df]\<rparr>
      in if store_raises w (ToSql name df) then (Raised OperationalError, s1)
         else if store_raises w (SelectAll name) then
           (Raised OperationalError,
            s1\<lparr>tables := (tables s)(sqlite_key name \<mapsto> frame_table df),
               store_calls := store_calls s @ [ToSql name df, SelectAll name]\<rparr>)
         else
           (Returned,
            s1\<lparr>tables := (tables s)(sqlite_key name \<mapsto> frame_table df),
               store_calls := store_calls s @ [ToSql name df, SelectAll name],
               log := log s @ [DebugRows (table_rows (frame_table df))]\<rparr>))"
  by (simp add: add_dataframe_def to_sql_def df_to_sql_def execute_select_def Let_def)

lemma remove_dataframe_untracked:
  "dataframes s p = None \<Longrightarrow>
   remove_dataframe w s p = (Returned, s\<lparr>sync_calls := sync_calls s @ [RemoveDataframe p]\<rparr>)"
  by (simp add: remove_dataframe_def)

lemma remove_dataframe_tracked:
  "dataframes s p = Some df \<Longrightarrow>
   remove_dataframe w s p =
     (let name = table_name (os_path_sep w) p;
          s1 = s\<lparr>dataframes := (dataframes s)(p := None),
                 sync_calls := sync_calls s @ [RemoveDataframe p],
                 store_calls := store_calls s @ [DropTable name]\<rparr>
      in if store_raises w (DropTable name) \<or> tables s (sqlite_key name) = None
         then (Raised OperationalError, s1)
         else (Returned, s1\<lparr>tables := (tables s)(sqlite_key name := None)\<rparr>))"
  by (auto simp add: remove_dataframe_def to_sql_def execute_drop_def Let_def split: option.splits)

text \<open>How \<^verbatim>\<open>add_dataframe\<close> ends depends on the world only, not on the state.\<close>

lemma add_dataframe_outcome:
  "fst (add_dataframe w s p) =
     (case read_csv w p of
        Inl e \<Rightarrow> if e = FileNotFoundError \<or> e = EmptyDataError then Returned else Raised e
      | Inr df \<Rightarrow>
          if store_raises w (ToSql (table_name (os_path_sep w) p) df)
             \<or> store_raises w (SelectAll (table_name (os_path_sep w) p))
          then Raised OperationalError else Returned)"
  by (cases "read_csv w p") (simp_all add: add_dataframe_not_loaded add_dataframe_loaded Let_def)

lemma add_dataframe_sync_calls:
  "sync_calls (snd (add_dataframe w s p)) = sync_calls s @ [AddDataframe p]"
  by (cases "read_csv w p") (simp_all add: add_dataframe_not_loaded add_dataframe_loaded Let_def)

lemma add_dataframe_dataframes:
  "dataframes (snd (add_dataframe w s p)) =
     (case read_csv w p of Inl e \<Rightarrow> dataframes s | Inr df \<Rightarrow> (dataframes s)(p \<mapsto> df))"
  by (cases "read_csv w p") (simp_all add: add_dataframe_not_loaded add_dataframe_loaded Let_def)

lemma add_dataframe_store_calls_loaded:
  "read_csv w p = Inr df \<Longrightarrow>
   store_calls (snd (add_dataframe w s p)) =
     store_calls s @ ToSql (table_name (os_path_sep w) p) df #
       (if store_raises w (ToSql (table_name (os_path_sep w) p) df) then []
        else [SelectAll (table_name (os_path_sep w) p)])"
  by (simp add: add_dataframe_loaded Let_def)

lemma add_dataframe_replace_raises:
  "replace_raises w p \<Longrightarrow>
   fst (add_dataframe w s p) = Raised OperationalError \<and> log (snd (add_dataframe w s p)) = log s"
  by (cases "read_csv w p") (auto simp add: replace_raises_def add_dataframe_loaded Let_def)

lemma add_dataframe_tables:
  "tables (snd (add_dataframe w s p)) =
     (case read_csv w p of
        Inl e \<Rightarrow> tables s
      | Inr df \<Rightarrow>
          if store_raises w (ToSql (table_name (os_path_sep w) p) df) then tables s
          else (tables s)(sqlite_key (table_name (os_path_sep w) p) \<mapsto> frame_table df))"
  by (cases "read_csv w p") (simp_all add: add_dataframe_not_loaded add_dataframe_loaded Let_def)

lemma add_dataframe_log:
  "log (snd (add_dataframe w s p)) =
     log s @ (if fst (add_dataframe w s p) = Returned then rows_logged w p else [])"
  by (cases "read_csv w p")
     (simp_all add: add_dataframe_not_loaded add_dataframe_loaded rows_logged_def Let_def)

lemma drop_raises_cong:
  "dataframes s = dataframes s' \<Longrightarrow> tables s = tables s' \<Longrightarrow>
   drop_raises w s p = drop_raises w s' p"
  by (auto simp add: drop_raises_def split: option.splits)

lemma drop_raises_log_update: "drop_raises w (s\<lparr>log := l\<rparr>) p = drop_raises w s p"
  by (rule drop_raises_cong) simp_all

lemma drop_raises_after_add:
  "drop_raises w (snd (add_dataframe w (s\<lparr>log := l\<rparr>) p)) q
     = drop_raises w (snd (add_dataframe w s p)) q"
  by (rule drop_raises_cong)
     (simp_all add: add_dataframe_dataframes add_dataframe_tables split: sum.splits)

lemma remove_dataframe_outcome:
  "fst (remove_dataframe w s p) = (if drop_raises w s p then Raised OperationalError else Returned)"
  by (cases "dataframes s p")
     (simp_all add: drop_raises_def remove_dataframe_untracked remove_dataframe_tracked Let_def)

text \<open>
  One table row for each row of the frame, in order: the index label, then the fields.
\<close>

lemma frame_table_rows:
  "map tl (table_rows (frame_table df)) = map snd (rows df)
   \<and> map hd (table_rows (frame_table df)) = map fst (rows df)"
  by (simp add: frame_table_def case_prod_unfold comp_def)

lemma deliver_raises:
  "fst (dispatch w s e) = Raised x \<Longrightarrow> deliver s ((w, e) # rest) = (Raised x, snd (dispatch w s e))"
  by (cases "dispatch w s e") simp

lemma remove_dataframe_sync_calls:
  "sync_calls (snd (remove_dataframe w s p)) = sync_calls s @ [RemoveDataframe p]"
  by (cases "dataframes s p")
     (simp_all add: remove_dataframe_untracked remove_dataframe_tracked Let_def)

lemma remove_dataframe_dataframes:
  "dataframes (snd (remove_dataframe w s p)) = (dataframes s)(p := None)"
  by (cases "dataframes s p")
     (auto simp add: remove_dataframe_untracked remove_dataframe_tracked Let_def)

lemma remove_dataframe_log: "log (snd (remove_dataframe w s p)) = log s"
  by (cases "dataframes s p")
     (simp_all add: remove_dataframe_untracked remove_dataframe_tracked Let_def)

lemma remove_dataframe_store_calls:
  "store_calls (snd (remove_dataframe w s p)) =
     store_calls s @
       (case dataframes s p of None \<Rightarrow> [] | Some df \<Rightarrow> [DropTable (table_name (os_path_sep w) p)])"
  by (cases "dataframes s p")
     (simp_all add: remove_dataframe_untracked remove_dataframe_tracked Let_def)

lemma remove_dataframe_drop_raises:
  "drop_raises w s p \<Longrightarrow> fst (remove_dataframe w s p) = Raised OperationalError"
  by (cases "dataframes s p") (simp_all add: drop_raises_def remove_dataframe_tracked Let_def)

lemma dispatch_accepted:
  "\<not> is_directory e \<Longrightarrow> endswith (src_path e) ''.csv'' \<Longrightarrow> dispatch w s e = super_dispatch w s e"
  by (simp add: dispatch_def)

text \<open>
  The two ways through \<^verbatim>\<open>on_moved\<close>: the add raises and nothing follows, or it returns and
  the remove runs on the state it left.
\<close>

lemma on_moved_add_raises:
  "fst (add_dataframe w s (dest_path e)) = Raised x \<Longrightarrow>
   on_moved w s e =
     add_dataframe w (s\<lparr>log := log s @ [Debug (''Moved Event '' @ src_path e)]\<rparr>) (dest_path e)"
proof -
  let ?s0 = "s\<lparr>log := log s @ [Debug (''Moved Event '' @ src_path e)]\<rparr>"
  assume "fst (add_dataframe w s (dest_path e)) = Raised x"
  then have "fst (add_dataframe w ?s0 (dest_path e)) = Raised x"
    by (simp add: add_dataframe_outcome)
  then show ?thesis
    by (cases "add_dataframe w ?s0 (dest_path e)") (simp add: on_moved_def)
qed

lemma on_moved_add_returns:
  "fst (add_dataframe w s (dest_path e)) = Returned \<Longrightarrow>
   on_moved w s e =
     remove_dataframe w
       (snd (add_dataframe w (s\<lparr>log := log s @ [Debug (''Moved Event '' @ src_path e)]\<rparr>)
               (dest_path e)))
       (src_path e)"
proof -
  let ?s0 = "s\<lparr>log := log s @ [Debug (''Moved Event '' @ src_path e)]\<rparr>"
  assume "fst (add_dataframe w s (dest_path e)) = Returned"
  then have "fst (add_dataframe w ?s0 (dest_path e)) = Returned"
    by (simp add: add_dataframe_outcome)
  then show ?thesis
    by (cases "add_dataframe w ?s0 (dest_path e)") (simp add: on_moved_def)
qed

lemma on_moved_sync_calls:
  "sync_calls (snd (on_moved w s e)) =
     sync_calls s @
       (if fst (add_dataframe w s (dest_path e)) = Returned
        then [AddDataframe (dest_path e), RemoveDataframe (src_path e)]
        else [AddDataframe (dest_path e)])"
proof (cases "fst (add_dataframe w s (dest_path e))")
  case Returned
  then show ?thesis
    by (simp add: on_moved_add_returns remove_dataframe_sync_calls add_dataframe_sync_calls)
next
  case (Raised x)
  then show ?thesis
    by (simp add: on_moved_add_raises add_dataframe_sync_calls)
qed

lemma on_moved_outcome_when_add_raises:
  "fst (add_dataframe w s (dest_path e)) \<noteq> Returned \<Longrightarrow>
   fst (on_moved w s e) = fst (add_dataframe w s (dest_path e))"
proof -
  assume n: "fst (add_dataframe w s (dest_path e)) \<noteq> Returned"
  then obtain x where x: "fst (add_dataframe w s (dest_path e)) = Raised x"
    by (cases "fst (add_dataframe w s (dest_path e))") auto
  then show ?thesis
    by (simp add: on_moved_add_raises add_dataframe_outcome)
qed

lemma on_moved_loaded:
  assumes "read_csv w (dest_path e) = Inr df" and "src_path e \<noteq> dest_path e"
  shows "dataframes (snd (on_moved w s e)) (dest_path e) = Some df
       \<and> take (Suc (length (store_calls s))) (store_calls (snd (on_moved w s e)))
           = store_calls s @ [ToSql (table_name (os_path_sep w) (dest_path e)) df]"
proof (cases "fst (add_dataframe w s (dest_path e))")
  case Returned
  with assms show ?thesis
    by (simp add: on_moved_add_returns remove_dataframe_dataframes remove_dataframe_store_calls
        add_dataframe_dataframes add_dataframe_store_calls_loaded)
next
  case (Raised x)
  with assms show ?thesis
    by (simp add: on_moved_add_raises add_dataframe_dataframes add_dataframe_store_calls_loaded)
qed

lemma run_ops_snoc: "run_ops s (h @ [(w, oper)]) = snd (apply_op w (run_ops s h) oper)"
  by (induction s h rule: run_ops.induct) simp_all

section \<open>Table identity\<close>

text \<open>
  C1. For every path, the table name the watcher derives is the final path segment (the text
  after the last path separator) cut at the first dot of that segment; so \<^verbatim>\<open>dir/a.csv\<close> and
  \<^verbatim>\<open>dir/a.b.csv\<close> both give the table \<^verbatim>\<open>a\<close>.
\<close>

theorem table_name_is_tableIdentity:
  "table_name sep p = tableIdentity sep p
   \<and> table_name CHR ''/'' ''dir/a.csv'' = ''a''
   \<and> table_name CHR ''/'' ''dir/a.b.csv'' = ''a''"
proof -
  have "table_name sep p = tableIdentity sep p"
    by (simp add: table_name_takeWhile tableIdentity_def up_to_first_dot_def final_segment_def)
  moreover have "table_name CHR ''/'' ''dir/a.csv'' = ''a''"
    by (simp add: table_name_takeWhile)
  moreover have "table_name CHR ''/'' ''dir/a.b.csv'' = ''a''"
    by (simp add: table_name_takeWhile)
  ultimately show ?thesis by simp
qed

theorem table_name_is_tableIdentity_witness:
  "table_name CHR ''/'' ''data/in/orders.2024.csv'' = tableIdentity CHR ''/'' ''data/in/orders.2024.csv''
   \<and> tableIdentity CHR ''/'' ''data/in/orders.2024.csv'' = ''orders''"
  using table_name_is_tableIdentity [where sep = "CHR ''/''" and p = "''data/in/orders.2024.csv''"]
  by (simp add: tableIdentity_def up_to_first_dot_def final_segment_def)

section \<open>add_dataframe\<close>

text \<open>
  C2. When the load of a path reports that the file is not found or that it is empty,
  \<^verbatim>\<open>add_dataframe\<close> returns, the tracking map, the tables of the store and the log are what
  they were, and no request was sent to the store. A path that was tracked keeps its snapshot
  and its table.
\<close>

theorem add_dataframe_failed_load_is_noop:
  assumes "read_csv w p = Inl FileNotFoundError \<or> read_csv w p = Inl EmptyDataError"
  shows "fst (add_dataframe w s p) = Returned
       \<and> dataframes (snd (add_dataframe w s p)) = dataframes s
       \<and> tables (snd (add_dataframe w s p)) = tables s
       \<and> store_calls (snd (add_dataframe w s p)) = store_calls s
       \<and> log (snd (add_dataframe w s p)) = log s"
  using assms by (auto simp: add_dataframe_not_loaded)

text \<open>
  The witness: \<^verbatim>\<open>data/orders.csv\<close> is tracked with three rows and has vanished from the disk
  when the next load is tried.
\<close>

theorem add_dataframe_failed_load_is_noop_witness:
  "(read_csv (posix_world [] []) ''data/orders.csv'' = Inl FileNotFoundError
      \<or> read_csv (posix_world [] []) ''data/orders.csv'' = Inl EmptyDataError)
   \<and> fst (add_dataframe (posix_world [] []) orders_tracked ''data/orders.csv'') = Returned
   \<and> dataframes (snd (add_dataframe (posix_world [] []) orders_tracked ''data/orders.csv''))
        ''data/orders.csv'' = Some three_rows
   \<and> tables (snd (add_dataframe (posix_world [] []) orders_tracked ''data/orders.csv''))
        ''orders'' = Some (frame_table three_rows)
   \<and> store_calls (snd (add_dataframe (posix_world [] []) orders_tracked ''data/orders.csv''))
        = [ToSql ''orders'' three_rows, SelectAll ''orders'']"
  using add_dataframe_failed_load_is_noop
          [where w = "posix_world [] []" and p = "''data/orders.csv''" and s = orders_tracked]
  by (simp add: orders_tracked_eq run_defs)

text \<open>
  C3. When the load of a path gives a frame, \<^verbatim>\<open>add_dataframe\<close> stores the frame in the
  tracking map under the path, and the next request it sends to the store is the replace of
  the table named after the path with that frame. When the store carries the request out, the
  table is what \<^verbatim>\<open>to_sql\<close> writes for the new frame and nothing of what the table held
  before: one row for each row of the frame, the fields of that row behind its index label;
  and no other table changes. The same holds on the way a modification takes:
  through \<^verbatim>\<open>update_dataframes\<close>, and through \<^verbatim>\<open>dispatch\<close> for a created or modified
  CSV file.
\<close>

theorem add_dataframe_loaded_replaces_table:
  assumes "read_csv w p = Inr df"
  shows "dataframes (snd (add_dataframe w s p)) = (dataframes s)(p \<mapsto> df)
       \<and> take (Suc (length (store_calls s))) (store_calls (snd (add_dataframe w s p)))
           = store_calls s @ [ToSql (table_name (os_path_sep w) p) df]
       \<and> (\<not> store_raises w (ToSql (table_name (os_path_sep w) p) df) \<longrightarrow>
            tables (snd (add_dataframe w s p))
              = (tables s)(sqlite_key (table_name (os_path_sep w) p) \<mapsto> frame_table df))
       \<and> dataframes (snd (update_dataframes w s p)) = (dataframes s)(p \<mapsto> df)
       \<and> take (Suc (length (store_calls s))) (store_calls (snd (update_dataframes w s p)))
           = store_calls s @ [ToSql (table_name (os_path_sep w) p) df]
       \<and> (\<not> store_raises w (ToSql (table_name (os_path_sep w) p) df) \<longrightarrow>
            tables (snd (update_dataframes w s p))
              = (tables s)(sqlite_key (table_name (os_path_sep w) p) \<mapsto> frame_table df))
       \<and> (\<not> is_directory e \<and> endswith (src_path e) ''.csv'' \<and> src_path e = p
            \<and> (event_type e = Created \<or> event_type e = Modified) \<longrightarrow>
            dataframes (snd (dispatch w s e)) = (dataframes s)(p \<mapsto> df)
            \<and> take (Suc (length (store_calls s))) (store_calls (snd (dispatch w s e)))
                = store_calls s @ [ToSql (table_name (os_path_sep w) p) df]
            \<and> (\<not> store_raises w (ToSql (table_name (os_path_sep w) p) df) \<longrightarrow>
                 tables (snd (dispatch w s e))
                   = (tables s)(sqlite_key (table_name (os_path_sep w) p) \<mapsto> frame_table df)))
       \<and> map tl (table_rows (frame_table df)) = map snd (rows df)"
proof -
  have a: "\<And>s. dataframes (snd (add_dataframe w s p)) = (dataframes s)(p \<mapsto> df)
       \<and> take (Suc (length (store_calls s))) (store_calls (snd (add_dataframe w s p)))
           = store_calls s @ [ToSql (table_name (os_path_sep w) p) df]
       \<and> (\<not> store_raises w (ToSql (table_name (os_path_sep w) p) df) \<longrightarrow>
            tables (snd (add_dataframe w s p))
              = (tables s)(sqlite_key (table_name (os_path_sep w) p) \<mapsto> frame_table df))"
    using assms by (simp add: add_dataframe_loaded Let_def)
  have u: "dataframes (snd (update_dataframes w s p)) = (dataframes s)(p \<mapsto> df)
       \<and> take (Suc (length (store_calls s))) (store_calls (snd (update_dataframes w s p)))
           = store_calls s @ [ToSql (table_name (os_path_sep w) p) df]
       \<and> (\<not> store_raises w (ToSql (table_name (os_path_sep w) p) df) \<longrightarrow>
            tables (snd (update_dataframes w s p))
              = (tables s)(sqlite_key (table_name (os_path_sep w) p) \<mapsto> frame_table df))"
    using a [of "s\<lparr>sync_calls := sync_calls s @ [UpdateDataframes p]\<rparr>"]
    by (simp add: update_dataframes_def)
  have d: "dataframes (snd (dispatch w s e)) = (dataframes s)(p \<mapsto> df)
            \<and> take (Suc (length (store_calls s))) (store_calls (snd (dispatch w s e)))
                = store_calls s @ [ToSql (table_name (os_path_sep w) p) df]
            \<and> (\<not> store_raises w (ToSql (table_name (os_path_sep w) p) df) \<longrightarrow>
                 tables (snd (dispatch w s e))
                   = (tables s)(sqlite_key (table_name (os_path_sep w) p) \<mapsto> frame_table df))"
    if acc: "\<not> is_directory e" "endswith (src_path e) ''.csv''" "src_path e = p"
    and k: "event_type e = Created \<or> event_type e = Modified"
  proof -
    let ?l = "\<lambda>m. s\<lparr>log := log s @ [Debug (m @ src_path e)]\<rparr>"
    from k show ?thesis
    proof
      assume "event_type e = Created"
      then have "dispatch w s e = add_dataframe w (?l ''Created Event '') p"
        using acc by (simp add: dispatch_accepted super_dispatch_def on_created_def)
      then show ?thesis using a [of "?l ''Created Event ''"] by simp
    next
      assume "event_type e = Modified"
      then have "dispatch w s e =
          add_dataframe w ((?l ''Modified Event '')\<lparr>sync_calls := sync_calls s @ [UpdateDataframes p]\<rparr>) p"
        using acc
        by (simp add: dispatch_accepted super_dispatch_def on_modified_def update_dataframes_def)
      then show ?thesis
        using a [of "(?l ''Modified Event '')\<lparr>sync_calls := sync_calls s @ [UpdateDataframes p]\<rparr>"]
        by simp
    qed
  qed
  from a [of s] u d frame_table_rows [of df] show ?thesis by blast
qed

text \<open>
  The witness is the modify cycle: \<^verbatim>\<open>data/orders.csv\<close> was added with three rows, then the
  notification of its modification arrives and it loads with one different row; the table
  \<^verbatim>\<open>orders\<close> holds that one row under the columns \<^verbatim>\<open>index\<close>, \<^verbatim>\<open>id\<close> and \<^verbatim>\<open>amount\<close>.
\<close>

theorem add_dataframe_loaded_replaces_table_witness:
  "read_csv (posix_world [(''data/orders.csv'', Inr one_row)] []) ''data/orders.csv'' = Inr one_row
   \<and> \<not> is_directory (file_event Modified ''data/orders.csv'' [])
   \<and> endswith (src_path (file_event Modified ''data/orders.csv'' [])) ''.csv''
   \<and> event_type (file_event Modified ''data/orders.csv'' []) = Modified
   \<and> tables orders_tracked ''orders''
       = Some (SqlTable [''index'', ''id'', ''amount'']
                 [[''0'', ''1'', ''10''], [''1'', ''2'', ''20''], [''2'', ''3'', ''30'']])
   \<and> tables (snd (dispatch (posix_world [(''data/orders.csv'', Inr one_row)] [])
                    orders_tracked (file_event Modified ''data/orders.csv'' []))) ''orders''
       = Some (SqlTable [''index'', ''id'', ''amount''] [[''0'', ''7'', ''70'']])
   \<and> dataframes (snd (dispatch (posix_world [(''data/orders.csv'', Inr one_row)] [])
                    orders_tracked (file_event Modified ''data/orders.csv'' []))) ''data/orders.csv''
       = Some one_row
   \<and> tables (snd (add_dataframe (posix_world [(''data/orders.csv'', Inr one_row)] [])
                    orders_tracked ''data/orders.csv'')) ''orders''
       = Some (SqlTable [''index'', ''id'', ''amount''] [[''0'', ''7'', ''70'']])"
  using add_dataframe_loaded_replaces_table
          [where w = "posix_world [(''data/orders.csv'', Inr one_row)] []"
             and p = "''data/orders.csv''" and df = one_row and s = orders_tracked
             and e = "file_event Modified ''data/orders.csv'' []"]
  by (simp add: orders_tracked_eq three_rows_def one_row_def run_defs)

section \<open>The filter of dispatch\<close>

text \<open>
  C4. A notification for a directory, or one whose source path does not end in \<^verbatim>\<open>.csv\<close>, is
  dropped: \<^verbatim>\<open>dispatch\<close> returns, no watcher method is called, no request reaches the store,
  the tracking map and the tables are unchanged, and the only effect is one trace line.
\<close>

theorem dispatch_ignores_directories_and_non_csv:
  assumes "is_directory e \<or> \<not> endswith (src_path e) ''.csv''"
  shows "fst (dispatch w s e) = Returned
       \<and> sync_calls (snd (dispatch w s e)) = sync_calls s
       \<and> store_calls (snd (dispatch w s e)) = store_calls s
       \<and> dataframes (snd (dispatch w s e)) = dataframes s
       \<and> tables (snd (dispatch w s e)) = tables s
       \<and> log (snd (dispatch w s e)) = log s @ [Debug (''Ignoring '' @ src_path e)]"
  using assms by (auto simp: dispatch_def)

text \<open>The witness: a directory named like a CSV file, and a text file.\<close>

theorem dispatch_ignores_directories_and_non_csv_witness:
  "is_directory (dir_event Created ''data/new.csv'' [])
   \<and> \<not> endswith (src_path (file_event Modified ''data/notes.txt'' [])) ''.csv''
   \<and> sync_calls (snd (dispatch (posix_world [(''data/new.csv'', Inr one_row)] []) (init Map.empty)
        (dir_event Created ''data/new.csv'' []))) = []
   \<and> store_calls (snd (dispatch (posix_world [(''data/new.csv'', Inr one_row)] []) (init Map.empty)
        (dir_event Created ''data/new.csv'' []))) = []
   \<and> sync_calls (snd (dispatch (posix_world [(''data/notes.txt'', Inr one_row)] []) (init Map.empty)
        (file_event Modified ''data/notes.txt'' []))) = []
   \<and> store_calls (snd (dispatch (posix_world [(''data/notes.txt'', Inr one_row)] []) (init Map.empty)
        (file_event Modified ''data/notes.txt'' []))) = []"
  using dispatch_ignores_directories_and_non_csv
          [where e = "dir_event Created ''data/new.csv'' []"
             and w = "posix_world [(''data/new.csv'', Inr one_row)] []" and s = "init Map.empty"]
        dispatch_ignores_directories_and_non_csv
          [where e = "file_event Modified ''data/notes.txt'' []"
             and w = "posix_world [(''data/notes.txt'', Inr one_row)] []" and s = "init Map.empty"]
  by (simp add: run_defs)

section \<open>Moved files\<close>

text \<open>
  C5, amended. For every accepted moved notification the first call the watcher receives is
  \<^verbatim>\<open>add_dataframe\<close> on the destination path. When that call returns, \<^verbatim>\<open>remove_dataframe\<close>
  on the source path follows, and these two are the only calls. When that call raises, the
  exception leaves \<^verbatim>\<open>dispatch\<close> and \<^verbatim>\<open>remove_dataframe\<close> is not called.
\<close>

theorem on_moved_add_then_remove_unless_add_raises:
  assumes "event_type e = Moved" and "\<not> is_directory e" and "endswith (src_path e) ''.csv''"
  shows "sync_calls (snd (dispatch w s e)) =
           sync_calls s @
             (if fst (add_dataframe w s (dest_path e)) = Returned
              then [AddDataframe (dest_path e), RemoveDataframe (src_path e)]
              else [AddDataframe (dest_path e)])
       \<and> (fst (add_dataframe w s (dest_path e)) \<noteq> Returned \<longrightarrow>
            fst (dispatch w s e) = fst (add_dataframe w s (dest_path e)))"
proof -
  have "dispatch w s e = on_moved w s e"
    using assms by (simp add: dispatch_accepted super_dispatch_def)
  then show ?thesis
    by (simp add: on_moved_sync_calls on_moved_outcome_when_add_raises)
qed

text \<open>The witness: \<^verbatim>\<open>data/a.csv\<close> is renamed to \<^verbatim>\<open>data/b.csv\<close> and everything works.\<close>

theorem on_moved_add_then_remove_unless_add_raises_witness:
  "event_type (file_event Moved ''data/a.csv'' ''data/b.csv'') = Moved
   \<and> \<not> is_directory (file_event Moved ''data/a.csv'' ''data/b.csv'')
   \<and> endswith (src_path (file_event Moved ''data/a.csv'' ''data/b.csv'')) ''.csv''
   \<and> sync_calls (snd (dispatch (posix_world [(''data/b.csv'', Inr one_row)] []) (init Map.empty)
                        (file_event Moved ''data/a.csv'' ''data/b.csv'')))
       = [AddDataframe ''data/b.csv'', RemoveDataframe ''data/a.csv'']"
  using on_moved_add_then_remove_unless_add_raises
          [where e = "file_event Moved ''data/a.csv'' ''data/b.csv''"
             and w = "posix_world [(''data/b.csv'', Inr one_row)] []" and s = "init Map.empty"]
  by (simp add: run_defs)

text \<open>
  C5 as stated (two calls for every accepted moved notification) fails: \<^verbatim>\<open>data/a.csv\<close> is
  renamed to \<^verbatim>\<open>data/b.csv\<close>, the new file loads, and the store fails on the replace of table
  \<^verbatim>\<open>b\<close>. The watcher receives the add and nothing else.
\<close>

theorem moved_remove_skipped_counterexample:
  "event_type (file_event Moved ''data/a.csv'' ''data/b.csv'') = Moved
   \<and> \<not> is_directory (file_event Moved ''data/a.csv'' ''data/b.csv'')
   \<and> endswith (src_path (file_event Moved ''data/a.csv'' ''data/b.csv'')) ''.csv''
   \<and> fst (dispatch (posix_world [(''data/b.csv'', Inr one_row)] [ToSql ''b'' one_row])
             (init Map.empty) (file_event Moved ''data/a.csv'' ''data/b.csv''))
       = Raised OperationalError
   \<and> sync_calls (snd (dispatch (posix_world [(''data/b.csv'', Inr one_row)] [ToSql ''b'' one_row])
                        (init Map.empty) (file_event Moved ''data/a.csv'' ''data/b.csv'')))
       = [AddDataframe ''data/b.csv'']
   \<and> sync_calls (snd (dispatch (posix_world [(''data/b.csv'', Inr one_row)] [ToSql ''b'' one_row])
                        (init Map.empty) (file_event Moved ''data/a.csv'' ''data/b.csv'')))
       \<noteq> [AddDataframe ''data/b.csv'', RemoveDataframe ''data/a.csv'']"
  by (simp add: run_defs)

text \<open>
  C9. The filter looks at the source path only. For every moved notification of a file whose
  source path ends in \<^verbatim>\<open>.csv\<close>, the first call the watcher receives is \<^verbatim>\<open>add_dataframe\<close>
  on the destination path, whatever that path ends in. So when the destination does not end
  in \<^verbatim>\<open>.csv\<close> and loads, it is tracked afterwards, and the first request sent to the store
  is the replace of the table named after it.
\<close>

theorem moved_destination_not_filtered:
  assumes "event_type e = Moved" and "\<not> is_directory e" and "endswith (src_path e) ''.csv''"
  shows "take (Suc (length (sync_calls s))) (sync_calls (snd (dispatch w s e)))
           = sync_calls s @ [AddDataframe (dest_path e)]
       \<and> (\<not> endswith (dest_path e) ''.csv'' \<and> read_csv w (dest_path e) = Inr df \<longrightarrow>
            dataframes (snd (dispatch w s e)) (dest_path e) = Some df
            \<and> take (Suc (length (store_calls s))) (store_calls (snd (dispatch w s e)))
                = store_calls s @ [ToSql (table_name (os_path_sep w) (dest_path e)) df])"
proof -
  have d: "dispatch w s e = on_moved w s e"
    using assms by (simp add: dispatch_accepted super_dispatch_def)
  have "\<not> endswith (dest_path e) ''.csv'' \<Longrightarrow> src_path e \<noteq> dest_path e"
    using assms(3) by auto
  then show ?thesis
    by (simp add: d on_moved_sync_calls on_moved_loaded)
qed

text \<open>
  The witness: \<^verbatim>\<open>data/a.csv\<close> is renamed to \<^verbatim>\<open>data/a.txt\<close>; the text file is tracked and
  the table \<^verbatim>\<open>a\<close> holds its content.
\<close>

theorem moved_destination_not_filtered_witness:
  "event_type (file_event Moved ''data/a.csv'' ''data/a.txt'') = Moved
   \<and> \<not> is_directory (file_event Moved ''data/a.csv'' ''data/a.txt'')
   \<and> endswith (src_path (file_event Moved ''data/a.csv'' ''data/a.txt'')) ''.csv''
   \<and> \<not> endswith (dest_path (file_event Moved ''data/a.csv'' ''data/a.txt'')) ''.csv''
   \<and> read_csv (posix_world [(''data/a.txt'', Inr one_row)] []) ''data/a.txt'' = Inr one_row
   \<and> dataframes (snd (dispatch (posix_world [(''data/a.txt'', Inr one_row)] []) (init Map.empty)
                        (file_event Moved ''data/a.csv'' ''data/a.txt''))) ''data/a.txt'' = Some one_row
   \<and> tables (snd (dispatch (posix_world [(''data/a.txt'', Inr one_row)] []) (init Map.empty)
                    (file_event Moved ''data/a.csv'' ''data/a.txt''))) ''a'' = Some (frame_table one_row)
   \<and> store_calls (snd (dispatch (posix_world [(''data/a.txt'', Inr one_row)] []) (init Map.empty)
                         (file_event Moved ''data/a.csv'' ''data/a.txt'')))
       = [ToSql ''a'' one_row, SelectAll ''a'']"
  using moved_destination_not_filtered
          [where e = "file_event Moved ''data/a.csv'' ''data/a.txt''"
             and w = "posix_world [(''data/a.txt'', Inr one_row)] []"
             and s = "init Map.empty" and df = one_row]
  by (simp add: run_defs)

section \<open>remove_dataframe\<close>

text \<open>
  C6. For a path that is not a key of the tracking map, \<^verbatim>\<open>remove_dataframe\<close> returns with
  the tracking map, the tables and the log unchanged and without a request to the store. For
  a tracked path the entry is deleted and then the one request is the drop of the table named
  after the path; the entry is gone also when that drop raises, which it does when the store
  fails or has no such table.
\<close>

theorem remove_dataframe_untracked_noop_tracked_deletes_then_drops:
  "(dataframes s p = None \<longrightarrow>
      fst (remove_dataframe w s p) = Returned
      \<and> dataframes (snd (remove_dataframe w s p)) = dataframes s
      \<and> tables (snd (remove_dataframe w s p)) = tables s
      \<and> store_calls (snd (remove_dataframe w s p)) = store_calls s
      \<and> log (snd (remove_dataframe w s p)) = log s)
   \<and> (dataframes s p \<noteq> None \<longrightarrow>
      dataframes (snd (remove_dataframe w s p)) = (dataframes s)(p := None)
      \<and> store_calls (snd (remove_dataframe w s p))
          = store_calls s @ [DropTable (table_name (os_path_sep w) p)]
      \<and> fst (remove_dataframe w s p)
          = (if store_raises w (DropTable (table_name (os_path_sep w) p))
                \<or> tables s (sqlite_key (table_name (os_path_sep w) p)) = None
             then Raised OperationalError else Returned))"
proof (cases "dataframes s p")
  case None
  then show ?thesis by (simp add: remove_dataframe_untracked)
next
  case (Some df)
  then show ?thesis by (simp add: remove_dataframe_tracked Let_def)
qed

text \<open>
  The witness: a remove on a fresh watcher, and a remove of the tracked \<^verbatim>\<open>data/orders.csv\<close>
  while the store fails on the drop.
\<close>

theorem remove_dataframe_untracked_noop_tracked_deletes_then_drops_witness:
  "dataframes (init Map.empty) ''data/orders.csv'' = None
   \<and> fst (remove_dataframe (posix_world [] []) (init Map.empty) ''data/orders.csv'') = Returned
   \<and> store_calls (snd (remove_dataframe (posix_world [] []) (init Map.empty) ''data/orders.csv'')) = []
   \<and> dataframes orders_tracked ''data/orders.csv'' \<noteq> None
   \<and> fst (remove_dataframe (posix_world [] [DropTable ''orders'']) orders_tracked ''data/orders.csv'')
       = Raised OperationalError
   \<and> dataframes (snd (remove_dataframe (posix_world [] [DropTable ''orders'']) orders_tracked
                        ''data/orders.csv'')) ''data/orders.csv'' = None
   \<and> store_calls (snd (remove_dataframe (posix_world [] [DropTable ''orders'']) orders_tracked
                        ''data/orders.csv''))
       = [ToSql ''orders'' three_rows, SelectAll ''orders'', DropTable ''orders'']"
  using remove_dataframe_untracked_noop_tracked_deletes_then_drops
          [where s = "init Map.empty" and p = "''data/orders.csv''" and w = "posix_world [] []"]
        remove_dataframe_untracked_noop_tracked_deletes_then_drops
          [where s = orders_tracked and p = "''data/orders.csv''"
             and w = "posix_world [] [DropTable ''orders'']"]
  by (simp add: orders_tracked_eq run_defs)

section \<open>The tracking map over a run\<close>

text \<open>
  C7, amended. After any sequence of \<^verbatim>\<open>add_dataframe\<close> and \<^verbatim>\<open>remove_dataframe\<close> calls on a
  fresh watcher, a path is a key of the tracking map if and only if some load of it produced a
  usable snapshot and no remove of that path came after that load. A later load that fails
  does not take the path out.
\<close>

theorem tracked_iff_loaded_since_remove:
  "(p \<in> dom (dataframes (run_ops (init db) h))) = loaded_since_remove (rev h) p"
proof (induction h rule: rev_induct)
  case Nil
  show ?case by (simp add: init_def)
next
  case (snoc x h)
  obtain w oper where x: "x = (w, oper)" by (cases x)
  show ?case
  proof (cases oper)
    case (AddOrUpdate q)
    show ?thesis
    proof (cases "read_csv w q")
      case (Inl e)
      with snoc x AddOrUpdate show ?thesis
        by (auto simp add: run_ops_snoc add_dataframe_dataframes usable_def domIff)
    next
      case (Inr df)
      with snoc x AddOrUpdate show ?thesis
        by (auto simp add: run_ops_snoc add_dataframe_dataframes usable_def domIff)
    qed
  next
    case (Remove q)
    with snoc x show ?thesis
      by (auto simp add: run_ops_snoc remove_dataframe_dataframes domIff)
  qed
qed

text \<open>
  The witness: \<^verbatim>\<open>a.csv\<close> is loaded and then not found, and stays tracked; \<^verbatim>\<open>a.csv\<close> is
  loaded and then removed, and is not tracked.
\<close>

theorem tracked_iff_loaded_since_remove_witness:
  "(''a.csv'' \<in> dom (dataframes (run_ops (init Map.empty)
       [(posix_world [(''a.csv'', Inr one_row)] [], AddOrUpdate ''a.csv''),
        (posix_world [] [], AddOrUpdate ''a.csv'')])))
   \<and> loaded_since_remove
       (rev [(posix_world [(''a.csv'', Inr one_row)] [], AddOrUpdate ''a.csv''),
             (posix_world [] [], AddOrUpdate ''a.csv'')]) ''a.csv''
   \<and> ''a.csv'' \<notin> dom (dataframes (run_ops (init Map.empty)
       [(posix_world [(''a.csv'', Inr one_row)] [], AddOrUpdate ''a.csv''),
        (posix_world [] [], Remove ''a.csv'')]))"
  using tracked_iff_loaded_since_remove
          [where p = "''a.csv''" and db = Map.empty
             and h = "[(posix_world [(''a.csv'', Inr one_row)] [], AddOrUpdate ''a.csv''),
                       (posix_world [] [], AddOrUpdate ''a.csv'')]"]
        tracked_iff_loaded_since_remove
          [where p = "''a.csv''" and db = Map.empty
             and h = "[(posix_world [(''a.csv'', Inr one_row)] [], AddOrUpdate ''a.csv''),
                       (posix_world [] [], Remove ''a.csv'')]"]
  by (simp add: usable_def posix_world_def add_dataframe_dataframes remove_dataframe_dataframes
        init_def domIff)

text \<open>
  C7 as stated (present if and only if the last load attempted was usable) fails: \<^verbatim>\<open>a.csv\<close>
  is loaded, then loaded again when the file is not found. The last attempt gave no snapshot,
  and the path is still a key of the tracking map.
\<close>

theorem failed_reload_keeps_path_tracked_counterexample:
  "''a.csv'' \<in> dom (dataframes (run_ops (init Map.empty)
       [(posix_world [(''a.csv'', Inr one_row)] [], AddOrUpdate ''a.csv''),
        (posix_world [] [], AddOrUpdate ''a.csv'')]))
   \<and> \<not> last_load_usable
       (rev [(posix_world [(''a.csv'', Inr one_row)] [], AddOrUpdate ''a.csv''),
             (posix_world [] [], AddOrUpdate ''a.csv'')]) ''a.csv''"
  by (simp add: usable_def posix_world_def add_dataframe_dataframes init_def domIff)

section \<open>Store failures\<close>

text \<open>
  \<open>store_fails_during\<close> leaves no failure of the store out: when it does not hold for an
  accepted notification and \<^verbatim>\<open>dispatch\<close> raises all the same, the exception is one that
  \<^verbatim>\<open>pd.read_csv\<close> raised.
\<close>

lemma exception_without_store_failure_is_from_load:
  assumes acc: "\<not> is_directory e" "endswith (src_path e) ''.csv''"
    and nf: "\<not> store_fails_during w s e"
    and r: "fst (dispatch w s e) = Raised x"
  shows "event_type e \<noteq> Deleted
       \<and> read_csv w (if event_type e = Moved then dest_path e else src_path e) = Inl x"
proof (cases "event_type e")
  case Created
  with acc nf r show ?thesis
    by (auto simp add: dispatch_accepted super_dispatch_def on_created_def store_fails_during_def
        replace_raises_def add_dataframe_outcome split: sum.splits if_splits)
next
  case Deleted
  with acc nf r show ?thesis
    by (simp add: dispatch_accepted super_dispatch_def on_deleted_def store_fails_during_def
        remove_dataframe_outcome drop_raises_log_update)
next
  case Modified
  with acc nf r show ?thesis
    by (auto simp add: dispatch_accepted super_dispatch_def on_modified_def update_dataframes_def
        store_fails_during_def replace_raises_def add_dataframe_outcome
        split: sum.splits if_splits)
next
  case Moved
  have d: "dispatch w s e = on_moved w s e"
    using acc Moved by (simp add: dispatch_accepted super_dispatch_def)
  show ?thesis
  proof (cases "fst (add_dataframe w s (dest_path e))")
    case Returned
    with nf Moved have "\<not> drop_raises w (snd (add_dataframe w s (dest_path e))) (src_path e)"
      by (simp add: store_fails_during_def)
    with Returned r d show ?thesis
      by (simp add: on_moved_add_returns remove_dataframe_outcome drop_raises_after_add)
  next
    case (Raised y)
    with r d have "y = x"
      by (simp add: on_moved_add_raises add_dataframe_outcome)
    with Raised nf Moved show ?thesis
      by (auto simp add: store_fails_during_def replace_raises_def add_dataframe_outcome
          split: sum.splits if_splits)
  qed
qed

text \<open>
  C8, amended. When the store raises during a replace (the \<^verbatim>\<open>to_sql\<close> request or the SELECT
  that reads the table back) or during a drop (the request fails or the table is missing),
  the exception leaves the watcher operation. For every accepted notification during whose
  handling the store raises, the exception also leaves \<^verbatim>\<open>dispatch\<close> uncaught; the log gains
  the trace line of the event, and for a moved file whose add completed before the drop
  failed the rows that add read back, and no record of the failure; and processing does not
  continue: the delivery ends with the exception in the state the failing notification left,
  whatever notifications are queued behind it.
\<close>

theorem store_failure_propagates_uncaught:
  "(replace_raises w p \<longrightarrow> fst (add_dataframe w s p) = Raised OperationalError)
   \<and> (drop_raises w s p \<longrightarrow> fst (remove_dataframe w s p) = Raised OperationalError)
   \<and> (\<not> is_directory e \<and> endswith (src_path e) ''.csv'' \<and> store_fails_during w s e \<longrightarrow>
       fst (dispatch w s e) = Raised OperationalError
       \<and> log (snd (dispatch w s e))
           = log s @ Debug (event_line e) #
               (if event_type e = Moved \<and> \<not> replace_raises w (dest_path e)
                then rows_logged w (dest_path e) else [])
       \<and> deliver s ((w, e) # rest) = (Raised OperationalError, snd (dispatch w s e)))"
proof -
  have "fst (dispatch w s e) = Raised OperationalError
        \<and> log (snd (dispatch w s e))
            = log s @ Debug (event_line e) #
                (if event_type e = Moved \<and> \<not> replace_raises w (dest_path e)
                 then rows_logged w (dest_path e) else [])"
    if acc: "\<not> is_directory e" "endswith (src_path e) ''.csv''"
    and f: "store_fails_during w s e"
  proof (cases "event_type e")
    case Created
    with acc f show ?thesis
      by (simp add: store_fails_during_def dispatch_accepted super_dispatch_def on_created_def
          event_line_def add_dataframe_replace_raises)
  next
    case Deleted
    let ?s0 = "s\<lparr>log := log s @ [Debug (''Deleted Event '' @ src_path e)]\<rparr>"
    from f Deleted have "drop_raises w s (src_path e)"
      by (simp add: store_fails_during_def)
    then have "drop_raises w ?s0 (src_path e)"
      by (simp add: drop_raises_log_update)
    then have "fst (remove_dataframe w ?s0 (src_path e)) = Raised OperationalError"
      by (rule remove_dataframe_drop_raises)
    with acc Deleted show ?thesis
      by (simp add: dispatch_accepted super_dispatch_def on_deleted_def event_line_def
          remove_dataframe_log)
  next
    case Modified
    with acc f show ?thesis
      by (simp add: store_fails_during_def dispatch_accepted super_dispatch_def on_modified_def
          update_dataframes_def event_line_def add_dataframe_replace_raises)
  next
    case Moved
    let ?s0 = "s\<lparr>log := log s @ [Debug (''Moved Event '' @ src_path e)]\<rparr>"
    have d: "dispatch w s e = on_moved w s e"
      using acc Moved by (simp add: dispatch_accepted super_dispatch_def)
    show ?thesis
    proof (cases "replace_raises w (dest_path e)")
      case True
      then have "fst (add_dataframe w s (dest_path e)) = Raised OperationalError"
        by (simp add: add_dataframe_replace_raises)
      then have "on_moved w s e = add_dataframe w ?s0 (dest_path e)"
        by (rule on_moved_add_raises)
      with True Moved d show ?thesis
        by (simp add: event_line_def add_dataframe_replace_raises)
    next
      case False
      with f Moved have r: "fst (add_dataframe w s (dest_path e)) = Returned"
        and dr: "drop_raises w (snd (add_dataframe w s (dest_path e))) (src_path e)"
        by (simp_all add: store_fails_during_def)
      have r0: "fst (add_dataframe w ?s0 (dest_path e)) = Returned"
        using r by (simp add: add_dataframe_outcome)
      have "drop_raises w (snd (add_dataframe w ?s0 (dest_path e))) (src_path e)"
        using dr by (simp only: drop_raises_after_add)
      then have "fst (remove_dataframe w (snd (add_dataframe w ?s0 (dest_path e))) (src_path e))
          = Raised OperationalError"
        by (rule remove_dataframe_drop_raises)
      with False Moved d r r0 show ?thesis
        by (simp add: on_moved_add_returns remove_dataframe_log add_dataframe_log event_line_def)
    qed
  qed
  moreover have "deliver s ((w, e) # rest) = (Raised OperationalError, snd (dispatch w s e))"
    if "fst (dispatch w s e) = Raised OperationalError"
    using that by (rule deliver_raises)
  ultimately show ?thesis
    by (simp add: add_dataframe_replace_raises remove_dataframe_drop_raises del: deliver.simps)
qed

text \<open>
  The witness: the tracked \<^verbatim>\<open>data/orders.csv\<close> is modified while the store fails on the SELECT
  that reads \<^verbatim>\<open>orders\<close> back; and it is renamed to \<^verbatim>\<open>data/b.csv\<close> while the store fails on
  the drop of \<^verbatim>\<open>orders\<close>, after the add of \<^verbatim>\<open>data/b.csv\<close> went through. In both runs a
  notification for \<^verbatim>\<open>data/c.csv\<close> is queued behind and never reaches the watcher.
\<close>

theorem store_failure_propagates_uncaught_witness:
  "replace_raises (posix_world [(''data/orders.csv'', Inr one_row)] [SelectAll ''orders''])
       ''data/orders.csv''
   \<and> \<not> is_directory (file_event Modified ''data/orders.csv'' [])
   \<and> endswith (src_path (file_event Modified ''data/orders.csv'' [])) ''.csv''
   \<and> store_fails_during (posix_world [(''data/orders.csv'', Inr one_row)] [SelectAll ''orders''])
        orders_tracked (file_event Modified ''data/orders.csv'' [])
   \<and> deliver orders_tracked
        [(posix_world [(''data/orders.csv'', Inr one_row)] [SelectAll ''orders''],
          file_event Modified ''data/orders.csv'' []),
         (posix_world [(''data/c.csv'', Inr one_row)] [], file_event Created ''data/c.csv'' [])]
       = (Raised OperationalError,
          snd (dispatch (posix_world [(''data/orders.csv'', Inr one_row)] [SelectAll ''orders''])
                 orders_tracked (file_event Modified ''data/orders.csv'' [])))
   \<and> log (snd (dispatch (posix_world [(''data/orders.csv'', Inr one_row)] [SelectAll ''orders''])
             orders_tracked (file_event Modified ''data/orders.csv'' [])))
       = [DebugRows [[''0'', ''1'', ''10''], [''1'', ''2'', ''20''], [''2'', ''3'', ''30'']],
          Debug ''Modified Event data/orders.csv'']
   \<and> drop_raises (posix_world [(''data/b.csv'', Inr one_row)] [DropTable ''orders''])
        orders_tracked ''data/orders.csv''
   \<and> fst (remove_dataframe (posix_world [(''data/b.csv'', Inr one_row)] [DropTable ''orders''])
             orders_tracked ''data/orders.csv'') = Raised OperationalError
   \<and> store_fails_during (posix_world [(''data/b.csv'', Inr one_row)] [DropTable ''orders''])
        orders_tracked (file_event Moved ''data/orders.csv'' ''data/b.csv'')
   \<and> fst (dispatch (posix_world [(''data/b.csv'', Inr one_row)] [DropTable ''orders''])
             orders_tracked (file_event Moved ''data/orders.csv'' ''data/b.csv''))
       = Raised OperationalError
   \<and> log (snd (dispatch (posix_world [(''data/b.csv'', Inr one_row)] [DropTable ''orders''])
             orders_tracked (file_event Moved ''data/orders.csv'' ''data/b.csv'')))
       = [DebugRows [[''0'', ''1'', ''10''], [''1'', ''2'', ''20''], [''2'', ''3'', ''30'']],
          Debug ''Moved Event data/orders.csv'',
          DebugRows [[''0'', ''7'', ''70'']]]
   \<and> sync_calls (snd (deliver orders_tracked
        [(posix_world [(''data/b.csv'', Inr one_row)] [DropTable ''orders''],
          file_event Moved ''data/orders.csv'' ''data/b.csv''),
         (posix_world [(''data/c.csv'', Inr one_row)] [], file_event Created ''data/c.csv'' [])]))
       = [AddDataframe ''data/orders.csv'', AddDataframe ''data/b.csv'',
          RemoveDataframe ''data/orders.csv'']"
  using store_failure_propagates_uncaught
          [where w = "posix_world [(''data/orders.csv'', Inr one_row)] [SelectAll ''orders'']"
             and p = "''data/orders.csv''" and s = orders_tracked
             and e = "file_event Modified ''data/orders.csv'' []"
             and rest = "[(posix_world [(''data/c.csv'', Inr one_row)] [],
                           file_event Created ''data/c.csv'' [])]"]
        store_failure_propagates_uncaught
          [where w = "posix_world [(''data/b.csv'', Inr one_row)] [DropTable ''orders'']"
             and p = "''data/orders.csv''" and s = orders_tracked
             and e = "file_event Moved ''data/orders.csv'' ''data/b.csv''"
             and rest = "[(posix_world [(''data/c.csv'', Inr one_row)] [],
                           file_event Created ''data/c.csv'' [])]"]
  by (simp add: orders_tracked_eq replace_raises_def drop_raises_def store_fails_during_def
        rows_logged_def event_line_def three_rows_def one_row_def run_defs)

text \<open>
  C8 as stated (the failure is logged, the thread is not crashed and processing continues
  with the next event) fails: \<^verbatim>\<open>data/orders.csv\<close> is created and the store fails on the
  replace of \<^verbatim>\<open>orders\<close>, with a notification for \<^verbatim>\<open>data/c.csv\<close> queued behind.
  \<^verbatim>\<open>dispatch\<close> does not return, the log holds the trace line of the event only, the
  delivery ends with the exception, and the watcher never receives a call for
  \<^verbatim>\<open>data/c.csv\<close>.
\<close>

theorem store_failure_leaves_dispatch_counterexample:
  "\<not> is_directory (file_event Created ''data/orders.csv'' [])
   \<and> endswith (src_path (file_event Created ''data/orders.csv'' [])) ''.csv''
   \<and> replace_raises (posix_world [(''data/orders.csv'', Inr one_row)] [ToSql ''orders'' one_row])
        ''data/orders.csv''
   \<and> fst (dispatch (posix_world [(''data/orders.csv'', Inr one_row)] [ToSql ''orders'' one_row])
             (init Map.empty) (file_event Created ''data/orders.csv'' [])) \<noteq> Returned
   \<and> fst (dispatch (posix_world [(''data/orders.csv'', Inr one_row)] [ToSql ''orders'' one_row])
             (init Map.empty) (file_event Created ''data/orders.csv'' [])) = Raised OperationalError
   \<and> log (snd (dispatch (posix_world [(''data/orders.csv'', Inr one_row)] [ToSql ''orders'' one_row])
             (init Map.empty) (file_event Created ''data/orders.csv'' [])))
       = [Debug ''Created Event data/orders.csv'']
   \<and> fst (deliver (init Map.empty)
        [(posix_world [(''data/orders.csv'', Inr one_row)] [ToSql ''orders'' one_row],
          file_event Created ''data/orders.csv'' []),
         (posix_world [(''data/c.csv'', Inr one_row)] [], file_event Created ''data/c.csv'' [])])
       = Raised OperationalError
   \<and> sync_calls (snd (deliver (init Map.empty)
        [(posix_world [(''data/orders.csv'', Inr one_row)] [ToSql ''orders'' one_row],
          file_event Created ''data/orders.csv'' []),
         (posix_world [(''data/c.csv'', Inr one_row)] [], file_event Created ''data/c.csv'' [])]))
       = [AddDataframe ''data/orders.csv'']"
  by (simp add: replace_raises_def run_defs)

section \<open>A file named .csv\<close>

text \<open>
  C10. For a path whose final segment is exactly \<^verbatim>\<open>.csv\<close>, the suffix check of the filter
  passes, so the notification of such a file is handed on, and the table name derived from the
  path is the empty string: the replace after a load and the drop of a tracked path are
  requests for the table with the empty name.
\<close>

theorem dot_csv_file_gets_empty_table_name:
  assumes "last (str_split (os_path_sep w) p) = ''.csv''"
  shows "endswith p ''.csv''
       \<and> table_name (os_path_sep w) p = []
       \<and> (\<not> is_directory e \<and> src_path e = p \<longrightarrow> dispatch w s e = super_dispatch w s e)
       \<and> (read_csv w p = Inr df \<longrightarrow>
            take (Suc (length (store_calls s))) (store_calls (snd (add_dataframe w s p)))
              = store_calls s @ [ToSql [] df])
       \<and> (dataframes s p \<noteq> None \<longrightarrow>
            store_calls (snd (remove_dataframe w s p)) = store_calls s @ [DropTable []])"
proof -
  have e: "endswith p ''.csv''"
    using assms last_split_suffix [of p "os_path_sep w"] by (simp add: endswith_iff)
  have t: "table_name (os_path_sep w) p = []"
    using assms by (simp add: table_name_def hd_str_split)
  show ?thesis
    using e t
    by (auto simp add: dispatch_accepted add_dataframe_store_calls_loaded
        remove_dataframe_store_calls)
qed

text \<open>The witness: the file \<^verbatim>\<open>data/.csv\<close> is created.\<close>

theorem dot_csv_file_gets_empty_table_name_witness:
  "last (str_split (os_path_sep (posix_world [(''data/.csv'', Inr one_row)] [])) ''data/.csv'') = ''.csv''
   \<and> endswith ''data/.csv'' ''.csv''
   \<and> table_name CHR ''/'' ''data/.csv'' = []
   \<and> store_calls (snd (dispatch (posix_world [(''data/.csv'', Inr one_row)] []) (init Map.empty)
                         (file_event Created ''data/.csv'' [])))
       = [ToSql [] one_row, SelectAll []]
   \<and> tables (snd (dispatch (posix_world [(''data/.csv'', Inr one_row)] []) (init Map.empty)
                         (file_event Created ''data/.csv'' []))) [] = Some (frame_table one_row)"
  using dot_csv_file_gets_empty_table_name
          [where w = "posix_world [(''data/.csv'', Inr one_row)] []" and p = "''data/.csv''"
             and e = "file_event Created ''data/.csv'' []" and s = "init Map.empty"
             and df = one_row]
  by (simp add: last_str_split run_defs)

end
